theory Spec2Isabelle
  imports Main "HOL-Library.Sublist"
begin

section \<open>Loaded documents\<close>

text \<open>
  Both scripts work on the value that \<^verbatim>\<open>yaml.safe_load\<close> returns for \<^verbatim>\<open>labnet.yaml\<close>: nested
  Python dicts, lists and scalars, with no schema check. A dict is an association list in
  insertion order (the order \<^verbatim>\<open>.items()\<close> and \<^verbatim>\<open>.keys()\<close> iterate in); its keys are the
  hashable scalars. Floats, timestamps and binary scalars are left out. A character is a
  code point below 256.
\<close>

datatype key = KNull | KBool bool | KInt int | KStr string

datatype yaml =
    YNull
  | YBool bool
  | YInt int
  | YStr string
  | YList "yaml list"
  | YMap "(key \<times> yaml) list"

datatype pyexc =
  AttributeError | TypeError | KeyError | IndexError | ValueError | OSError | YAMLError
  | TemplateError

definition and_then :: "'x + 'a \<Rightarrow> ('a \<Rightarrow> 'x + 'b) \<Rightarrow> 'x + 'b" where
  "and_then m f = (case m of Inl e \<Rightarrow> Inl e | Inr v \<Rightarrow> f v)"

subsection \<open>Equality and hashing of keys\<close>

text \<open>Python has \<^verbatim>\<open>True == 1\<close> and \<^verbatim>\<open>False == 0\<close>; a string or \<^verbatim>\<open>None\<close> equals only itself.\<close>

fun key_num :: "key \<Rightarrow> int option" where
  "key_num (KBool b) = Some (if b then 1 else 0)"
| "key_num (KInt i) = Some i"
| "key_num KNull = None"
| "key_num (KStr s) = None"

definition key_eq :: "key \<Rightarrow> key \<Rightarrow> bool" where
  "key_eq a b = (case key_num a of Some i \<Rightarrow> key_num b = Some i | None \<Rightarrow> a = b)"

fun yaml_of_key :: "key \<Rightarrow> yaml" where
  "yaml_of_key KNull = YNull"
| "yaml_of_key (KBool b) = YBool b"
| "yaml_of_key (KInt i) = YInt i"
| "yaml_of_key (KStr s) = YStr s"

fun key_of_yaml :: "yaml \<Rightarrow> key option" where
  "key_of_yaml YNull = Some KNull"
| "key_of_yaml (YBool b) = Some (KBool b)"
| "key_of_yaml (YInt i) = Some (KInt i)"
| "key_of_yaml (YStr s) = Some (KStr s)"
| "key_of_yaml (YList xs) = None"
| "key_of_yaml (YMap kvs) = None"

definition val_eq :: "key \<Rightarrow> yaml \<Rightarrow> bool" where
  "val_eq k v = (case key_of_yaml v of Some k' \<Rightarrow> key_eq k k' | None \<Rightarrow> False)"

fun dict_lookup :: "key \<Rightarrow> (key \<times> yaml) list \<Rightarrow> yaml option" where
  "dict_lookup k [] = None"
| "dict_lookup k ((k', v) # kvs) = (if key_eq k k' then Some v else dict_lookup k kvs)"

subsection \<open>The operations the scripts apply to loaded values\<close>

text \<open>\<^verbatim>\<open>k in v\<close>: key membership in a dict, element membership in a list, substring test in a
  string (which wants a string on the left), \<^verbatim>\<open>TypeError\<close> on anything else.\<close>

fun py_in :: "key \<Rightarrow> yaml \<Rightarrow> pyexc + bool" where
  "py_in k (YMap kvs) = Inr (dict_lookup k kvs \<noteq> None)"
| "py_in k (YList xs) = Inr (list_ex (val_eq k) xs)"
| "py_in (KStr s) (YStr t) = Inr (sublist s t)"
| "py_in k v = Inl TypeError"

text \<open>Sequence indexing: a negative index counts from the end.\<close>

definition seq_index :: "'a list \<Rightarrow> int \<Rightarrow> pyexc + 'a" where
  "seq_index xs i =
     (if 0 \<le> i
      then (if nat i < length xs then Inr (xs ! nat i) else Inl IndexError)
      else (if nat (- i) \<le> length xs then Inr (xs ! (length xs - nat (- i))) else Inl IndexError))"

text \<open>\<^verbatim>\<open>v[k]\<close>.\<close>

fun py_getitem :: "yaml \<Rightarrow> key \<Rightarrow> pyexc + yaml" where
  "py_getitem (YMap kvs) k =
     (case dict_lookup k kvs of Some v \<Rightarrow> Inr v | None \<Rightarrow> Inl KeyError)"
| "py_getitem (YList xs) k =
     (case key_num k of Some i \<Rightarrow> seq_index xs i | None \<Rightarrow> Inl TypeError)"
| "py_getitem (YStr s) k =
     (case key_num k of
        Some i \<Rightarrow> and_then (seq_index s i) (\<lambda>c. Inr (YStr [c]))
      | None \<Rightarrow> Inl TypeError)"
| "py_getitem v k = Inl TypeError"

text \<open>\<^verbatim>\<open>v.get(k, default)\<close> and \<^verbatim>\<open>v.items()\<close>: only a dict has these methods.\<close>

fun py_get :: "yaml \<Rightarrow> key \<Rightarrow> yaml \<Rightarrow> pyexc + yaml" where
  "py_get (YMap kvs) k d = Inr (case dict_lookup k kvs of Some v \<Rightarrow> v | None \<Rightarrow> d)"
| "py_get v k d = Inl AttributeError"

fun py_items :: "yaml \<Rightarrow> pyexc + (key \<times> yaml) list" where
  "py_items (YMap kvs) = Inr kvs"
| "py_items v = Inl AttributeError"

subsection \<open>Formatting a value inside an f-string\<close>

definition digit_char :: "nat \<Rightarrow> char" where
  "digit_char d = ''0123456789abcdef'' ! d"

text \<open>The decimal text of an integer: digits, a minus sign before a negative number.\<close>

fun decimal :: "nat \<Rightarrow> string" where
  "decimal n = (if 10 \<le> n then decimal (n div 10) @ [digit_char (n mod 10)] else [digit_char n])"

declare decimal.simps [simp del]

definition int_str :: "int \<Rightarrow> string" where
  "int_str i = (if 0 \<le> i then decimal (nat i) else CHR ''-'' # decimal (nat (- i)))"

text \<open>
  \<^verbatim>\<open>str\<close> and \<^verbatim>\<open>repr\<close> of an integer. Python 3.11 (and the security releases of the older
  versions) refuses to convert an integer of more than \<^verbatim>\<open>sys.get_int_max_str_digits()\<close> decimal
  digits to text and raises \<^verbatim>\<open>ValueError\<close>; the scripts leave the limit at its default of
  4300. Such an integer can be loaded: \<^verbatim>\<open>yaml.safe_load\<close> reads a hexadecimal scalar of any
  length.
\<close>

definition int_max_str_digits :: nat where
  "int_max_str_digits = 4300"

definition int_text :: "int \<Rightarrow> pyexc + string" where
  "int_text i =
     (if int_max_str_digits < length (decimal (nat \<bar>i\<bar>)) then Inl ValueError else Inr (int_str i))"

definition hex2 :: "nat \<Rightarrow> string" where
  "hex2 n = [digit_char (n div 16), digit_char (n mod 16)]"

text \<open>\<^verbatim>\<open>str.isprintable\<close> below code point 256: the controls, the no-break space and the
  soft hyphen are not printable.\<close>

definition printable :: "char \<Rightarrow> bool" where
  "printable c = (let n = (of_char c :: nat) in (32 \<le> n \<and> n < 127) \<or> (161 \<le> n \<and> n \<noteq> 173))"

definition repr_char :: "char \<Rightarrow> char \<Rightarrow> string" where
  "repr_char quote c =
     (if c = quote \<or> c = CHR 0x5C then [CHR 0x5C, c]
      else if c = CHR 0x09 then [CHR 0x5C, CHR ''t'']
      else if c = CHR 0x0A then [CHR 0x5C, CHR ''n'']
      else if c = CHR 0x0D then [CHR 0x5C, CHR ''r'']
      else if printable c then [c]
      else [CHR 0x5C, CHR ''x''] @ hex2 (of_char c))"

text \<open>\<^verbatim>\<open>repr\<close> of a string: single quotes, unless the string has a single quote and no double
  quote.\<close>

definition repr_str :: "string \<Rightarrow> string" where
  "repr_str s =
     (let quote = (if CHR 0x27 \<in> set s \<and> CHR 0x22 \<notin> set s then CHR 0x22 else CHR 0x27)
      in quote # concat (map (repr_char quote) s) @ [quote])"

fun join :: "string \<Rightarrow> string list \<Rightarrow> string" where
  "join sep [] = []"
| "join sep [x] = x"
| "join sep (x # y # ys) = x @ sep @ join sep (y # ys)"

text \<open>The results of a list of conversions, or the first exception among them.\<close>

fun collect :: "('x + 'a) list \<Rightarrow> 'x + 'a list" where
  "collect [] = Inr []"
| "collect (r # rs) = and_then r (\<lambda>v. and_then (collect rs) (\<lambda>vs. Inr (v # vs)))"

fun key_repr :: "key \<Rightarrow> pyexc + string" where
  "key_repr KNull = Inr ''None''"
| "key_repr (KBool b) = Inr (if b then ''True'' else ''False'')"
| "key_repr (KInt i) = int_text i"
| "key_repr (KStr s) = Inr (repr_str s)"

fun py_repr :: "yaml \<Rightarrow> pyexc + string" where
  "py_repr YNull = Inr ''None''"
| "py_repr (YBool b) = Inr (if b then ''True'' else ''False'')"
| "py_repr (YInt i) = int_text i"
| "py_repr (YStr s) = Inr (repr_str s)"
| "py_repr (YList xs) =
     and_then (collect (map py_repr xs)) (\<lambda>parts. Inr (''['' @ join '', '' parts @ '']''))"
| "py_repr (YMap kvs) =
     and_then
       (collect (map (\<lambda>kv. and_then (key_repr (fst kv)) (\<lambda>k.
                            and_then (py_repr (snd kv)) (\<lambda>v. Inr (k @ '': '' @ v)))) kvs))
       (\<lambda>parts. Inr (''{'' @ join '', '' parts @ ''}''))"

text \<open>\<^verbatim>\<open>f"{v}"\<close> is \<^verbatim>\<open>str(v)\<close>: a string as it is, anything else as its \<^verbatim>\<open>repr\<close>.\<close>

fun py_str :: "yaml \<Rightarrow> pyexc + string" where
  "py_str (YStr s) = Inr s"
| "py_str v = py_repr v"

section \<open>\<^verbatim>\<open>resolve_target.py\<close>\<close>

datatype failure = Raised pyexc | SysExit int

datatype event =
    Stderr string
  | Stdout string
  | RenderCall string "(string \<times> yaml) list"
  | MkdirParents string
  | WriteFile string string

text \<open>\<^verbatim>\<open>name in labnet.get('devices', {})\<close> (lines 47 and 60).\<close>

definition is_device :: "yaml \<Rightarrow> key \<Rightarrow> pyexc + bool" where
  "is_device labnet name =
     and_then (py_get labnet (KStr ''devices'') (YMap [])) (\<lambda>devices. py_in name devices)"

text \<open>Lines 48 to 50 and again 61 to 62: the configuration of the device and its target
  name.\<close>

definition target_name_of :: "yaml \<Rightarrow> key \<Rightarrow> pyexc + yaml" where
  "target_name_of labnet name =
     and_then (py_getitem labnet (KStr ''devices'')) (\<lambda>devices.
     and_then (py_getitem devices name) (\<lambda>device_config.
       py_get device_config (KStr ''target_file'') (yaml_of_key name)))"

text \<open>Lines 51 and 63: \<^verbatim>\<open>f"targets/{target_name}.yaml"\<close>.\<close>

definition target_file_of :: "yaml \<Rightarrow> pyexc + string" where
  "target_file_of target_name =
     and_then (py_str target_name) (\<lambda>stem. Inr (''targets/'' @ stem @ ''.yaml''))"

definition device_target :: "yaml \<Rightarrow> key \<Rightarrow> pyexc + string" where
  "device_target labnet name =
     and_then (target_name_of labnet name) (\<lambda>target_name. target_file_of target_name)"

text \<open>Lines 47 to 52. \<open>None\<close> stands for falling through to the loop below.\<close>

definition direct_match :: "string \<Rightarrow> yaml \<Rightarrow> pyexc + string option" where
  "direct_match device_name labnet =
     and_then (is_device labnet (KStr device_name)) (\<lambda>known.
       if known
       then and_then (device_target labnet (KStr device_name)) (\<lambda>target_file. Inr (Some target_file))
       else Inr None)"

text \<open>The inner loop, lines 57 to 64, over the items of one lab's \<^verbatim>\<open>device_instances\<close>.\<close>

fun scan_instances :: "string \<Rightarrow> yaml \<Rightarrow> (key \<times> yaml) list \<Rightarrow> pyexc + string option" where
  "scan_instances device_name labnet [] = Inr None"
| "scan_instances device_name labnet ((base_device, instances) # rest) =
     and_then (py_in (KStr device_name) instances) (\<lambda>found.
       if found
       then and_then (is_device labnet base_device) (\<lambda>known.
              if known
              then and_then (device_target labnet base_device) (\<lambda>target_file. Inr (Some target_file))
              else scan_instances device_name labnet rest)
       else scan_instances device_name labnet rest)"

text \<open>The outer loop, lines 55 to 56, over the items of \<^verbatim>\<open>labs\<close>.\<close>

fun scan_labs :: "string \<Rightarrow> yaml \<Rightarrow> (key \<times> yaml) list \<Rightarrow> pyexc + string option" where
  "scan_labs device_name labnet [] = Inr None"
| "scan_labs device_name labnet ((lab_name, lab_config) # rest) =
     and_then (py_get lab_config (KStr ''device_instances'') (YMap [])) (\<lambda>device_instances.
     and_then (py_items device_instances) (\<lambda>items.
     and_then (scan_instances device_name labnet items) (\<lambda>r.
       case r of
         Some target_file \<Rightarrow> Inr (Some target_file)
       | None \<Rightarrow> scan_labs device_name labnet rest)))"

definition instance_match :: "string \<Rightarrow> yaml \<Rightarrow> pyexc + string option" where
  "instance_match device_name labnet =
     and_then (py_get labnet (KStr ''labs'') (YMap [])) (\<lambda>labs.
     and_then (py_items labs) (\<lambda>items. scan_labs device_name labnet items))"

text \<open>Line 67.\<close>

definition not_found_message :: "string \<Rightarrow> string" where
  "not_found_message device_name =
     ''Error: Device or instance '' @ [CHR 0x27] @ device_name @ [CHR 0x27]
       @ '' not found in labnet.yaml''"

text \<open>
  \<^verbatim>\<open>resolve_target_file\<close> from line 46 on, applied to the document that lines 39 to 44 have
  loaded. The result is what the call printed and how it ended: the returned path, an
  uncaught exception, or \<^verbatim>\<open>sys.exit(1)\<close>.
\<close>

definition resolve_target_file :: "string \<Rightarrow> yaml \<Rightarrow> event list \<times> (failure + string)" where
  "resolve_target_file device_name labnet =
     (case direct_match device_name labnet of
        Inl e \<Rightarrow> ([], Inl (Raised e))
      | Inr (Some target_file) \<Rightarrow> ([], Inr target_file)
      | Inr None \<Rightarrow>
          (case instance_match device_name labnet of
             Inl e \<Rightarrow> ([], Inl (Raised e))
           | Inr (Some target_file) \<Rightarrow> ([], Inr target_file)
           | Inr None \<Rightarrow> ([Stderr (not_found_message device_name)], Inl (SysExit 1))))"

section \<open>\<^verbatim>\<open>generate_places_yaml.py\<close>\<close>

text \<open>
  What \<^verbatim>\<open>generate_places_yaml\<close> asks of its surroundings: the file system, the YAML loader,
  the template engine and the clock. \<open>load_yaml\<close> is \<^verbatim>\<open>open\<close> followed by \<^verbatim>\<open>yaml.safe_load\<close>,
  \<open>render\<close> is \<^verbatim>\<open>Template(template_str).render(**context)\<close>, \<open>epoch_now\<close> is the value of
  \<^verbatim>\<open>int(datetime.now().timestamp())\<close> when line 99 is evaluated. A path is the text that
  \<^verbatim>\<open>str(path)\<close> gives.
\<close>

record env =
  path_exists :: "string \<Rightarrow> bool"
  load_yaml :: "string \<Rightarrow> pyexc + yaml"
  read_text :: "string \<Rightarrow> pyexc + string"
  render :: "string \<Rightarrow> (string \<times> yaml) list \<Rightarrow> pyexc + string"
  epoch_now :: int
  path_parent :: "string \<Rightarrow> string"
  mkdir_parents :: "string \<Rightarrow> pyexc option"
  write_text :: "string \<Rightarrow> string \<Rightarrow> pyexc option"

subsection \<open>String methods of the report\<close>

text \<open>\<^verbatim>\<open>text.split('\n')\<close>.\<close>

fun split_nl :: "string \<Rightarrow> string list" where
  "split_nl [] = [[]]"
| "split_nl (c # cs) =
     (if c = CHR 0x0A then [] # split_nl cs
      else (case split_nl cs of [] \<Rightarrow> [[c]] | l # ls \<Rightarrow> (c # l) # ls))"

text \<open>\<^verbatim>\<open>str.isspace\<close> below code point 256.\<close>

definition is_space :: "char \<Rightarrow> bool" where
  "is_space c = ((of_char c :: nat) \<in> {9, 10, 11, 12, 13, 28, 29, 30, 31, 32, 133, 160})"

definition strip :: "string \<Rightarrow> string" where
  "strip s = rev (dropWhile is_space (rev (dropWhile is_space s)))"

definition rstrip_colon :: "string \<Rightarrow> string" where
  "rstrip_colon s = rev (dropWhile (\<lambda>c. c = CHR '':'') (rev s))"

text \<open>The condition of lines 110 and 120.\<close>

definition is_place_line :: "string \<Rightarrow> bool" where
  "is_place_line line = (suffix '':'' (strip line) \<and> sublist ''labgrid-'' line)"

text \<open>Line 110: \<^verbatim>\<open>sum(1 for line in ... if ...)\<close>.\<close>

fun count_places :: "string list \<Rightarrow> int" where
  "count_places [] = 0"
| "count_places (line # rest) = (if is_place_line line then 1 + count_places rest else count_places rest)"

text \<open>Lines 119 to 122: one printed entry for each line that passes.\<close>

fun list_places :: "string list \<Rightarrow> event list" where
  "list_places [] = []"
| "list_places (line # rest) =
     (if is_place_line line
      then Stdout (''  - '' @ rstrip_colon (strip line)) # list_places rest
      else list_places rest)"

text \<open>The first character of the line printed at 112 is U+2713, here as its three UTF-8
  bytes.\<close>

definition check_mark :: string where
  "check_mark = [CHR 0xE2, CHR 0x9C, CHR 0x93]"

text \<open>Lines 109 to 122. The count is a number of lines of the text and is written with
  \<open>int_str\<close>.\<close>

definition report :: "string \<Rightarrow> string \<Rightarrow> string \<Rightarrow> event list" where
  "report output_path lab_name places_yaml =
     [Stdout (check_mark @ '' places.yaml generated successfully''),
      Stdout (''  Output: '' @ output_path),
      Stdout (''  Lab: '' @ lab_name),
      Stdout (''  Places generated: '' @ int_str (count_places (split_nl places_yaml))),
      Stdout (CHR 0x0A # ''Generated places:'')]
     @ list_places (split_nl places_yaml)"

subsection \<open>The unknown lab, lines 81 to 84\<close>

text \<open>\<^verbatim>\<open>', '.join(...)\<close> raises \<^verbatim>\<open>TypeError\<close> on an item that is not a string.\<close>

fun str_items :: "key list \<Rightarrow> pyexc + string list" where
  "str_items [] = Inr []"
| "str_items (KStr s # ks) = and_then (str_items ks) (\<lambda>names. Inr (s # names))"
| "str_items (k # ks) = Inl TypeError"

fun py_keys :: "yaml \<Rightarrow> pyexc + key list" where
  "py_keys (YMap kvs) = Inr (map fst kvs)"
| "py_keys v = Inl AttributeError"

definition available_labs :: "yaml \<Rightarrow> pyexc + string" where
  "available_labs labnet =
     and_then (py_get labnet (KStr ''labs'') (YMap [])) (\<lambda>labs.
     and_then (py_keys labs) (\<lambda>keys.
     and_then (str_items keys) (\<lambda>names. Inr (''Available labs: '' @ join '', '' names))))"

definition lab_not_found_message :: "string \<Rightarrow> string" where
  "lab_not_found_message lab_name =
     ''Error: Lab '' @ [CHR 0x27] @ lab_name @ [CHR 0x27] @ '' not found in labnet.yaml''"

definition unknown_lab :: "string \<Rightarrow> yaml \<Rightarrow> event list \<times> (failure + unit)" where
  "unknown_lab lab_name labnet =
     (case available_labs labnet of
        Inl e \<Rightarrow> ([Stderr (lab_not_found_message lab_name)], Inl (Raised e))
      | Inr line \<Rightarrow> ([Stderr (lab_not_found_message lab_name), Stderr line], Inl (SysExit 1)))"

subsection \<open>Rendering and writing, lines 86 to 122\<close>

text \<open>The keyword arguments of lines 97 to 99.\<close>

definition render_context :: "yaml \<Rightarrow> string \<Rightarrow> int \<Rightarrow> (string \<times> yaml) list" where
  "render_context labnet lab_name now =
     [(''labnet'', labnet),
      (''inventory_hostname'', YStr lab_name),
      (''ansible_date_time'', YMap [(KStr ''epoch'', YInt now)])]"

text \<open>An event is a call the script makes; a call that raises is the last event.\<close>

definition render_places ::
  "env \<Rightarrow> string \<Rightarrow> yaml \<Rightarrow> string \<Rightarrow> string \<Rightarrow> event list \<times> (failure + unit)" where
  "render_places env lab_name labnet template_path output_path =
     (if \<not> path_exists env template_path
      then ([Stderr (''Error: Template not found at '' @ template_path)], Inl (SysExit 1))
      else case read_text env template_path of
        Inl e \<Rightarrow> ([], Inl (Raised e))
      | Inr template_str \<Rightarrow>
          (let context = render_context labnet lab_name (epoch_now env);
               parent = path_parent env output_path
           in case render env template_str context of
             Inl e \<Rightarrow> ([RenderCall template_str context], Inl (Raised e))
           | Inr places_yaml \<Rightarrow>
               (case mkdir_parents env parent of
                  Some e \<Rightarrow>
                    ([RenderCall template_str context, MkdirParents parent], Inl (Raised e))
                | None \<Rightarrow>
                    (case write_text env output_path places_yaml of
                       Some e \<Rightarrow>
                         ([RenderCall template_str context, MkdirParents parent,
                           WriteFile output_path places_yaml], Inl (Raised e))
                     | None \<Rightarrow>
                         ([RenderCall template_str context, MkdirParents parent,
                           WriteFile output_path places_yaml]
                          @ report output_path lab_name places_yaml, Inr ())))))"

text \<open>\<^verbatim>\<open>generate_places_yaml\<close>, lines 72 to 122: the calls it made and how it ended.\<close>

definition generate_places_yaml ::
  "env \<Rightarrow> string \<Rightarrow> string \<Rightarrow> string \<Rightarrow> string \<Rightarrow> event list \<times> (failure + unit)" where
  "generate_places_yaml env lab_name labnet_path template_path output_path =
     (if \<not> path_exists env labnet_path
      then ([Stderr (''Error: labnet.yaml not found at '' @ labnet_path)], Inl (SysExit 1))
      else case load_yaml env labnet_path of
        Inl e \<Rightarrow> ([], Inl (Raised e))
      | Inr labnet \<Rightarrow>
          (case and_then (py_get labnet (KStr ''labs'') (YMap [])) (py_in (KStr lab_name)) of
             Inl e \<Rightarrow> ([], Inl (Raised e))
           | Inr known \<Rightarrow>
               if \<not> known then unknown_lab lab_name labnet
               else render_places env lab_name labnet template_path output_path))"

section \<open>The data model read off a loaded document\<close>

text \<open>
  The statements below speak of the devices, the labs and the instance aliases of a
  topology. These are the views of a loaded document they use: the \<^verbatim>\<open>devices\<close> mapping, the
  \<^verbatim>\<open>labs\<close> mapping and a lab's \<^verbatim>\<open>device_instances\<close> mapping, each empty when the entry is
  missing.
\<close>

definition devices_of :: "yaml \<Rightarrow> (key \<times> yaml) list" where
  "devices_of labnet =
     (case labnet of
        YMap root \<Rightarrow> (case dict_lookup (KStr ''devices'') root of Some (YMap devs) \<Rightarrow> devs | _ \<Rightarrow> [])
      | _ \<Rightarrow> [])"

definition labs_of :: "yaml \<Rightarrow> (key \<times> yaml) list" where
  "labs_of labnet =
     (case labnet of
        YMap root \<Rightarrow> (case dict_lookup (KStr ''labs'') root of Some (YMap labs) \<Rightarrow> labs | _ \<Rightarrow> [])
      | _ \<Rightarrow> [])"

definition instances_of :: "yaml \<Rightarrow> (key \<times> yaml) list" where
  "instances_of lab_config =
     (case lab_config of
        YMap lab \<Rightarrow>
          (case dict_lookup (KStr ''device_instances'') lab of Some (YMap di) \<Rightarrow> di | _ \<Rightarrow> [])
      | _ \<Rightarrow> [])"

text \<open>The (base device, alias list) pairs of all labs, in the order in which the two loops
  of the resolver visit them: labs in stored order, then each lab's pairs in stored order.\<close>

definition alias_pairs :: "yaml \<Rightarrow> (key \<times> yaml) list" where
  "alias_pairs labnet = concat (map (\<lambda>lab. instances_of (snd lab)) (labs_of labnet))"

text \<open>The alias list of a pair contains the identifier.\<close>

definition lists_alias :: "string \<Rightarrow> yaml \<Rightarrow> bool" where
  "lists_alias a instances = (case instances of YList xs \<Rightarrow> YStr a \<in> set xs | _ \<Rightarrow> False)"

text \<open>The name is a key of \<^verbatim>\<open>devices\<close>.\<close>

definition known_device :: "key \<Rightarrow> yaml \<Rightarrow> bool" where
  "known_device b labnet = (dict_lookup b (devices_of labnet) \<noteq> None)"

text \<open>
  The shape the data model gives a topology, as far as the resolver depends on it: the
  document is a mapping; \<^verbatim>\<open>devices\<close>, when present, maps each name to a mapping; \<^verbatim>\<open>labs\<close>, when
  present, maps each name to a mapping whose \<^verbatim>\<open>device_instances\<close>, when present, maps each base
  device to a list. \<^verbatim>\<open>yaml.safe_load\<close> checks none of this, and off this shape the resolver can
  end in an exception.
\<close>

definition is_YMap :: "yaml \<Rightarrow> bool" where
  "is_YMap v = (case v of YMap kvs \<Rightarrow> True | _ \<Rightarrow> False)"

definition is_YList :: "yaml \<Rightarrow> bool" where
  "is_YList v = (case v of YList xs \<Rightarrow> True | _ \<Rightarrow> False)"

definition lab_ok :: "yaml \<Rightarrow> bool" where
  "lab_ok lab_config =
     (case lab_config of
        YMap lab \<Rightarrow>
          (case dict_lookup (KStr ''device_instances'') lab of
             None \<Rightarrow> True
           | Some (YMap di) \<Rightarrow> list_all (\<lambda>item. is_YList (snd item)) di
           | Some _ \<Rightarrow> False)
      | _ \<Rightarrow> False)"

definition topology_ok :: "yaml \<Rightarrow> bool" where
  "topology_ok labnet =
     (case labnet of
        YMap root \<Rightarrow>
          (case dict_lookup (KStr ''devices'') root of
             None \<Rightarrow> True
           | Some (YMap devs) \<Rightarrow> list_all (\<lambda>item. is_YMap (snd item)) devs
           | Some _ \<Rightarrow> False) \<and>
          (case dict_lookup (KStr ''labs'') root of
             None \<Rightarrow> True
           | Some (YMap labs) \<Rightarrow> list_all (\<lambda>item. lab_ok (snd item)) labs
           | Some _ \<Rightarrow> False)
      | _ \<Rightarrow> False)"

text \<open>The target name of a device with configuration \<open>spec\<close>, and what formatting the path
  from it gives: the path, or the exception of the f-string.\<close>

definition device_stem :: "key \<Rightarrow> (key \<times> yaml) list \<Rightarrow> yaml" where
  "device_stem b spec =
     (case dict_lookup (KStr ''target_file'') spec of Some t \<Rightarrow> t | None \<Rightarrow> yaml_of_key b)"

definition device_path :: "yaml \<Rightarrow> key \<Rightarrow> (pyexc + string) option" where
  "device_path labnet b =
     (case dict_lookup b (devices_of labnet) of
        Some (YMap spec) \<Rightarrow> Some (target_file_of (device_stem b spec))
      | _ \<Rightarrow> None)"

text \<open>The first pair, in iteration order, that lists the identifier under a base device
  that is a key of \<^verbatim>\<open>devices\<close>.\<close>

definition first_match :: "string \<Rightarrow> yaml \<Rightarrow> (key \<times> yaml) option" where
  "first_match a labnet =
     find (\<lambda>item. lists_alias a (snd item) \<and> known_device (fst item) labnet) (alias_pairs labnet)"

text \<open>The device an identifier is matched to: itself when it is a key of \<^verbatim>\<open>devices\<close>,
  otherwise the base device of the first such pair.\<close>

definition matched_device :: "string \<Rightarrow> yaml \<Rightarrow> key option" where
  "matched_device a labnet =
     (if known_device (KStr a) labnet then Some (KStr a)
      else case first_match a labnet of Some item \<Rightarrow> Some (fst item) | None \<Rightarrow> None)"

text \<open>How a call that reached the f-string ends: it returns the path or raises, and prints
  nothing.\<close>

definition call_result :: "pyexc + string \<Rightarrow> event list \<times> (failure + string)" where
  "call_result r = ([], case r of Inl e \<Rightarrow> Inl (Raised e) | Inr path \<Rightarrow> Inr path)"

text \<open>What the loops give for the device they stop at, if any.\<close>

definition loop_result :: "(pyexc + string) option \<Rightarrow> pyexc + string option" where
  "loop_result found =
     (case found of None \<Rightarrow> Inr None | Some r \<Rightarrow> and_then r (\<lambda>path. Inr (Some path)))"

text \<open>What the resolver does on a well-shaped document, in terms of these views (lemma
  \<open>resolve_ok\<close> below); \<open>None\<close> when it ends with the diagnostic of line 67.\<close>

definition resolved_path :: "string \<Rightarrow> yaml \<Rightarrow> (pyexc + string) option" where
  "resolved_path a labnet =
     (case matched_device a labnet of Some b \<Rightarrow> device_path labnet b | None \<Rightarrow> None)"

section \<open>Example documents\<close>

text \<open>The scenario of the specification: one device, one lab, one instance of the device.\<close>

definition scenario_doc :: yaml where
  "scenario_doc =
     YMap [(KStr ''devices'', YMap [(KStr ''linksys_e8450'', YMap [])]),
           (KStr ''labs'', YMap [(KStr ''labgrid-fcefyn'', YMap [(KStr ''device_instances'',
              YMap [(KStr ''linksys_e8450'', YList [YStr ''belkin_rt3200_1''])])])])]"

text \<open>A document whose \<^verbatim>\<open>labs\<close> entry is empty (YAML null), on which the loop over the labs
  would raise.\<close>

definition direct_only_doc :: yaml where
  "direct_only_doc =
     YMap [(KStr ''devices'', YMap [(KStr ''linksys_e8450'', YMap [])]), (KStr ''labs'', YNull)]"

text \<open>The scenario of the specification with an explicit \<^verbatim>\<open>target_file\<close>.\<close>

definition override_doc :: yaml where
  "override_doc = YMap [(KStr ''devices'', YMap [(KStr ''foo'', YMap [(KStr ''target_file'', YStr ''bar'')])])]"

text \<open>Two labs list the same alias: the first under a base device that \<^verbatim>\<open>devices\<close> lacks,
  the second under one it has.\<close>

definition two_labs_doc :: yaml where
  "two_labs_doc =
     YMap [(KStr ''devices'', YMap [(KStr ''real'', YMap [])]),
           (KStr ''labs'', YMap
              [(KStr ''lab_a'', YMap [(KStr ''device_instances'',
                  YMap [(KStr ''ghost'', YList [YStr ''unit_1''])])]),
               (KStr ''lab_b'', YMap [(KStr ''device_instances'',
                  YMap [(KStr ''real'', YList [YStr ''unit_1''])])])])]"

text \<open>The only pair that lists the alias names a base device that \<^verbatim>\<open>devices\<close> lacks.\<close>

definition dangling_doc :: yaml where
  "dangling_doc =
     YMap [(KStr ''devices'', YMap [(KStr ''real'', YMap [])]),
           (KStr ''labs'', YMap
              [(KStr ''lab_a'', YMap [(KStr ''device_instances'',
                  YMap [(KStr ''ghost'', YList [YStr ''unit_1''])])])])]"

text \<open>One lab lists \<^verbatim>\<open>unit_1\<close> under three base devices, the first of which \<^verbatim>\<open>devices\<close> lacks,
  and \<^verbatim>\<open>unit_2\<close>, itself a device name, under two.\<close>

definition ambiguous_doc :: yaml where
  "ambiguous_doc =
     YMap [(KStr ''devices'',
              YMap [(KStr ''real'', YMap []), (KStr ''other'', YMap []), (KStr ''unit_2'', YMap [])]),
           (KStr ''labs'', YMap
              [(KStr ''lab_a'', YMap [(KStr ''device_instances'',
                  YMap [(KStr ''ghost'', YList [YStr ''unit_1'']),
                        (KStr ''real'', YList [YStr ''unit_1'', YStr ''unit_2'']),
                        (KStr ''other'', YList [YStr ''unit_1'', YStr ''unit_2''])])])])]"

text \<open>\<^verbatim>\<open>belkin_rt3200_1\<close> is an alias of \<^verbatim>\<open>linksys_e8450\<close> and a device name of its own;
  \<^verbatim>\<open>spare_1\<close> is listed under \<^verbatim>\<open>spare\<close>, which is no device but an alias of \<^verbatim>\<open>tplink\<close>.\<close>

definition shadowed_doc :: yaml where
  "shadowed_doc =
     YMap [(KStr ''devices'',
              YMap [(KStr ''linksys_e8450'', YMap []), (KStr ''belkin_rt3200_1'', YMap []),
                    (KStr ''tplink'', YMap [])]),
           (KStr ''labs'', YMap
              [(KStr ''labgrid-fcefyn'', YMap [(KStr ''device_instances'',
                  YMap [(KStr ''linksys_e8450'', YList [YStr ''belkin_rt3200_1'']),
                        (KStr ''spare'', YList [YStr ''spare_1'']),
                        (KStr ''tplink'', YList [YStr ''spare''])])])])]"

text \<open>\<^verbatim>\<open>target_file: ""\<close> and \<^verbatim>\<open>target_file:\<close> with no value (YAML null).\<close>

definition empty_stem_doc :: yaml where
  "empty_stem_doc =
     YMap [(KStr ''devices'', YMap [(KStr ''foo'', YMap [(KStr ''target_file'', YStr [])])])]"

definition null_stem_doc :: yaml where
  "null_stem_doc =
     YMap [(KStr ''devices'', YMap [(KStr ''foo'', YMap [(KStr ''target_file'', YNull)])])]"

section \<open>An example environment\<close>

text \<open>An engine that only expands \<^verbatim>\<open>inventory_hostname\<close>, a clock, and a file system on which
  every call succeeds.\<close>

definition demo_render :: "string \<Rightarrow> (string \<times> yaml) list \<Rightarrow> pyexc + string" where
  "demo_render template_str context =
     (case map_of context ''inventory_hostname'' of
        Some (YStr host) \<Rightarrow> Inr (''labgrid-'' @ host @ ''-unit_1:'' @ [CHR 0x0A])
      | _ \<Rightarrow> Inl TemplateError)"

definition demo_env :: env where
  "demo_env = \<lparr>
     path_exists = (\<lambda>path. True),
     load_yaml = (\<lambda>path. Inr two_labs_doc),
     read_text = (\<lambda>path. Inr ''{{ inventory_hostname }}-unit_1:''),
     render = demo_render,
     epoch_now = 1700000000,
     path_parent = (\<lambda>path. ''out''),
     mkdir_parents = (\<lambda>path. None),
     write_text = (\<lambda>path text. None) \<rparr>"

text \<open>A rendered text with two lines that pass the test of the report.\<close>

definition demo_places :: string where
  "demo_places =
     ''labgrid-fcefyn-belkin_rt3200_1:'' @ [CHR 0x0A] @
     ''  acquired: null'' @ [CHR 0x0A] @
     ''  labgrid-fcefyn-openwrt_one :  '' @ [CHR 0x0A] @
     ''  matches:'' @ [CHR 0x0A]"

section \<open>The resolver on a well-shaped document\<close>

lemma dict_lookup_set: "dict_lookup k kvs = Some v \<Longrightarrow> (\<exists>k'. (k', v) \<in> set kvs)"
  by (induction kvs) (auto split: if_splits)

lemma is_device_ok: "topology_ok labnet \<Longrightarrow> is_device labnet b = Inr (known_device b labnet)"
  by (auto simp: topology_ok_def is_device_def known_device_def devices_of_def and_then_def
      split: yaml.splits option.splits)

lemma device_path_known:
  assumes "topology_ok labnet" and "known_device b labnet"
  shows "\<exists>r. device_path labnet b = Some r"
proof -
  from assms(2) obtain v where v: "dict_lookup b (devices_of labnet) = Some v"
    by (auto simp: known_device_def)
  then obtain k' where "(k', v) \<in> set (devices_of labnet)"
    using dict_lookup_set by blast
  moreover from assms(1) have "list_all (\<lambda>item. is_YMap (snd item)) (devices_of labnet)"
    by (auto simp: topology_ok_def devices_of_def split: yaml.splits option.splits)
  ultimately have "is_YMap v" by (fastforce simp: list_all_iff)
  with v show ?thesis
    by (auto simp: device_path_def is_YMap_def split: yaml.splits)
qed

lemma device_target_ok:
  assumes "device_path labnet b = Some r"
  shows "device_target labnet b = r"
  using assms
  by (auto simp: device_path_def device_stem_def device_target_def target_name_of_def
      devices_of_def and_then_def split: yaml.splits option.splits)

lemma py_in_list: "list_ex (val_eq (KStr a)) xs = lists_alias a (YList xs)"
proof -
  have "list_ex (val_eq (KStr a)) xs = (YStr a \<in> set xs)"
  proof (induction xs)
    case Nil
    then show ?case by simp
  next
    case (Cons x xs)
    have "val_eq (KStr a) x = (x = YStr a)"
      by (cases x) (auto simp: val_eq_def key_eq_def)
    with Cons show ?case by auto
  qed
  then show ?thesis by (simp add: lists_alias_def)
qed

lemma scan_instances_ok:
  assumes "topology_ok labnet" and "list_all (\<lambda>item. is_YList (snd item)) items"
  shows "scan_instances a labnet items =
     loop_result
       (case find (\<lambda>item. lists_alias a (snd item) \<and> known_device (fst item) labnet) items of
          Some item \<Rightarrow> device_path labnet (fst item) | None \<Rightarrow> None)"
  using assms(2)
proof (induction items)
  case Nil
  then show ?case by (simp add: loop_result_def)
next
  case (Cons item items)
  obtain b ins where item: "item = (b, ins)" by (cases item)
  from Cons.prems item obtain xs where ins: "ins = YList xs"
    by (cases ins) (auto simp: is_YList_def)
  from Cons have IH: "scan_instances a labnet items =
     loop_result
       (case find (\<lambda>item. lists_alias a (snd item) \<and> known_device (fst item) labnet) items of
          Some item \<Rightarrow> device_path labnet (fst item) | None \<Rightarrow> None)"
    by simp
  show ?case
  proof (cases "lists_alias a ins \<and> known_device b labnet")
    case True
    then obtain r where r: "device_path labnet b = Some r"
      using device_path_known [OF assms(1)] by blast
    with True show ?thesis
      by (simp add: item ins py_in_list is_device_ok [OF assms(1)] device_target_ok [OF r]
          and_then_def loop_result_def)
  next
    case False
    then show ?thesis
      by (auto simp: item ins py_in_list is_device_ok [OF assms(1)] IH and_then_def)
  qed
qed

lemma find_append_case:
  "find P (xs @ ys) = (case find P xs of Some x \<Rightarrow> Some x | None \<Rightarrow> find P ys)"
  by (induction xs) auto

lemma scan_labs_ok:
  assumes "topology_ok labnet" and "list_all (\<lambda>item. lab_ok (snd item)) labs"
  shows "scan_labs a labnet labs =
     loop_result
       (case find (\<lambda>item. lists_alias a (snd item) \<and> known_device (fst item) labnet)
               (concat (map (\<lambda>lab. instances_of (snd lab)) labs)) of
          Some item \<Rightarrow> device_path labnet (fst item) | None \<Rightarrow> None)"
  using assms(2)
proof (induction labs)
  case Nil
  then show ?case by (simp add: loop_result_def)
next
  case (Cons lab labs)
  obtain l cfg where lab: "lab = (l, cfg)" by (cases lab)
  let ?P = "\<lambda>item. lists_alias a (snd item) \<and> known_device (fst item) labnet"
  from Cons.prems lab have ok: "lab_ok cfg" by simp
  then have items_ok: "list_all (\<lambda>item. is_YList (snd item)) (instances_of cfg)"
    by (auto simp: lab_ok_def instances_of_def split: yaml.splits option.splits)
  from ok have get: "and_then (py_get cfg (KStr ''device_instances'') (YMap [])) py_items
      = Inr (instances_of cfg)"
    by (auto simp: lab_ok_def instances_of_def and_then_def split: yaml.splits option.splits)
  have inner: "scan_instances a labnet (instances_of cfg) =
     loop_result
       (case find ?P (instances_of cfg) of
          Some item \<Rightarrow> device_path labnet (fst item) | None \<Rightarrow> None)"
    by (rule scan_instances_ok [OF assms(1) items_ok])
  from Cons have IH: "scan_labs a labnet labs =
     loop_result
       (case find ?P (concat (map (\<lambda>lab. instances_of (snd lab)) labs)) of
          Some item \<Rightarrow> device_path labnet (fst item) | None \<Rightarrow> None)"
    by simp
  have step: "scan_labs a labnet ((l, cfg) # labs) =
      and_then (scan_instances a labnet (instances_of cfg)) (\<lambda>r.
        case r of Some target_file \<Rightarrow> Inr (Some target_file) | None \<Rightarrow> scan_labs a labnet labs)"
    using get by (auto simp: and_then_def split: sum.splits)
  show ?case
  proof (cases "find ?P (instances_of cfg)")
    case None
    then show ?thesis
      unfolding lab step inner
      by (simp add: IH and_then_def find_append_case loop_result_def)
  next
    case (Some item)
    then have "?P item" by (auto simp: find_Some_iff)
    then obtain r where "device_path labnet (fst item) = Some r"
      using device_path_known [OF assms(1)] by blast
    with Some show ?thesis
      unfolding lab step inner
      by (simp add: and_then_def find_append_case loop_result_def split: sum.splits)
  qed
qed

lemma resolve_ok:
  assumes "topology_ok labnet"
  shows "resolve_target_file a labnet =
     (case resolved_path a labnet of
        Some r \<Rightarrow> call_result r
      | None \<Rightarrow> ([Stderr (not_found_message a)], Inl (SysExit 1)))"
proof (cases "known_device (KStr a) labnet")
  case True
  then obtain r where r: "device_path labnet (KStr a) = Some r"
    using device_path_known [OF assms] by blast
  with True show ?thesis
    by (simp add: resolve_target_file_def direct_match_def is_device_ok [OF assms]
        device_target_ok [OF r] resolved_path_def matched_device_def call_result_def and_then_def
        split: sum.splits)
next
  case False
  have labs: "and_then (py_get labnet (KStr ''labs'') (YMap [])) py_items = Inr (labs_of labnet)"
    using assms
    by (auto simp: topology_ok_def labs_of_def and_then_def split: yaml.splits option.splits)
  have labs_ok: "list_all (\<lambda>item. lab_ok (snd item)) (labs_of labnet)"
    using assms
    by (auto simp: topology_ok_def labs_of_def split: yaml.splits option.splits)
  have im: "instance_match a labnet = scan_labs a labnet (labs_of labnet)"
    using labs by (auto simp: instance_match_def and_then_def split: sum.splits)
  have dm: "direct_match a labnet = Inr None"
    using False by (simp add: direct_match_def is_device_ok [OF assms] and_then_def)
  show ?thesis
  proof (cases "first_match a labnet")
    case None
    then show ?thesis
      using False
      by (simp add: resolve_target_file_def dm im scan_labs_ok [OF assms labs_ok] resolved_path_def
          matched_device_def first_match_def alias_pairs_def loop_result_def)
  next
    case (Some item)
    then have "known_device (fst item) labnet"
      by (auto simp: first_match_def find_Some_iff)
    then obtain r where "device_path labnet (fst item) = Some r"
      using device_path_known [OF assms] by blast
    with Some False show ?thesis
      by (simp add: resolve_target_file_def dm im scan_labs_ok [OF assms labs_ok] resolved_path_def
          matched_device_def first_match_def alias_pairs_def loop_result_def call_result_def
          and_then_def split: sum.splits)
  qed
qed

subsection \<open>Unfolding sets for closed instances\<close>

lemmas resolve_defs =
  resolve_target_file_def direct_match_def instance_match_def is_device_def
  device_target_def target_name_of_def target_file_of_def and_then_def key_eq_def val_eq_def

lemmas view_defs =
  devices_of_def labs_of_def instances_of_def alias_pairs_def lists_alias_def known_device_def
  topology_ok_def lab_ok_def is_YMap_def is_YList_def key_eq_def

subsection \<open>Direct matches\<close>

lemma devices_of_lookup:
  assumes "dict_lookup k (devices_of labnet) = Some v"
  shows "\<exists>root. labnet = YMap root \<and>
     dict_lookup (KStr ''devices'') root = Some (YMap (devices_of labnet))"
  using assms by (auto simp: devices_of_def split: yaml.splits option.splits)

lemma direct_target:
  assumes "dict_lookup (KStr d) (devices_of labnet) = Some (YMap spec)"
  shows "direct_match d labnet =
     and_then (target_file_of (device_stem (KStr d) spec)) (\<lambda>path. Inr (Some path))"
proof -
  from devices_of_lookup [OF assms] obtain root where
    "labnet = YMap root" "dict_lookup (KStr ''devices'') root = Some (YMap (devices_of labnet))"
    by blast
  with assms show ?thesis
    by (simp add: direct_match_def is_device_def device_target_def target_name_of_def
        device_stem_def and_then_def split: option.splits)
qed

text \<open>C1: a key \<open>d\<close> of \<^verbatim>\<open>devices\<close> whose configuration is a mapping with no
  \<^verbatim>\<open>target_file\<close> entry resolves to \<^verbatim>\<open>targets/d.yaml\<close>. The direct phase returns the path, so the
  loop over the labs is not entered; nothing is assumed of the \<^verbatim>\<open>labs\<close> entry.\<close>

theorem direct_match_default_stem:
  assumes "dict_lookup (KStr d) (devices_of labnet) = Some (YMap spec)"
      and "dict_lookup (KStr ''target_file'') spec = None"
  shows "direct_match d labnet = Inr (Some (''targets/'' @ d @ ''.yaml'')) \<and>
         resolve_target_file d labnet = ([], Inr (''targets/'' @ d @ ''.yaml''))"
  using direct_target [OF assms(1)] assms(2)
  by (simp add: resolve_target_file_def target_file_of_def device_stem_def and_then_def)

text \<open>An instance whose \<^verbatim>\<open>labs\<close> entry would make the loop raise.\<close>

theorem direct_match_default_stem_witness:
  "dict_lookup (KStr ''linksys_e8450'') (devices_of direct_only_doc) = Some (YMap []) \<and>
   dict_lookup (KStr ''target_file'') [] = None \<and>
   direct_match ''linksys_e8450'' direct_only_doc = Inr (Some ''targets/linksys_e8450.yaml'') \<and>
   resolve_target_file ''linksys_e8450'' direct_only_doc = ([], Inr ''targets/linksys_e8450.yaml'')"
proof -
  have h1: "dict_lookup (KStr ''linksys_e8450'') (devices_of direct_only_doc) = Some (YMap [])"
    by (simp add: direct_only_doc_def devices_of_def key_eq_def)
  have h2: "dict_lookup (KStr ''target_file'') [] = None"
    by simp
  from direct_match_default_stem [OF h1 h2] h1 h2 show ?thesis
    by simp
qed

text \<open>C2: a key \<open>n\<close> of \<^verbatim>\<open>devices\<close> whose configuration has the \<^verbatim>\<open>target_file\<close> string
  \<open>t\<close> resolves to \<^verbatim>\<open>targets/t.yaml\<close>, whatever \<open>n\<close> is.\<close>

theorem explicit_target_file:
  assumes "dict_lookup (KStr n) (devices_of labnet) = Some (YMap spec)"
      and "dict_lookup (KStr ''target_file'') spec = Some (YStr t)"
  shows "resolve_target_file n labnet = ([], Inr (''targets/'' @ t @ ''.yaml''))"
  using direct_target [OF assms(1)] assms(2)
  by (simp add: resolve_target_file_def target_file_of_def device_stem_def and_then_def)

text \<open>The scenario: \<^verbatim>\<open>foo\<close> with \<^verbatim>\<open>target_file: bar\<close> resolves to \<^verbatim>\<open>targets/bar.yaml\<close>.\<close>

theorem explicit_target_file_witness:
  "dict_lookup (KStr ''foo'') (devices_of override_doc) = Some (YMap [(KStr ''target_file'', YStr ''bar'')]) \<and>
   dict_lookup (KStr ''target_file'') [(KStr ''target_file'', YStr ''bar'')] = Some (YStr ''bar'') \<and>
   resolve_target_file ''foo'' override_doc = ([], Inr ''targets/bar.yaml'')"
proof -
  have h1: "dict_lookup (KStr ''foo'') (devices_of override_doc)
      = Some (YMap [(KStr ''target_file'', YStr ''bar'')])"
    by (simp add: override_doc_def devices_of_def key_eq_def)
  have h2: "dict_lookup (KStr ''target_file'') [(KStr ''target_file'', YStr ''bar'')] = Some (YStr ''bar'')"
    by (simp add: key_eq_def)
  from explicit_target_file [OF h1 h2] h1 h2 show ?thesis
    by simp
qed

subsection \<open>Instance aliases\<close>

lemma find_single:
  assumes "filter P xs = [x]" and "Q x"
  shows "find (\<lambda>y. P y \<and> Q y) xs = Some x"
  using assms
proof (induction xs)
  case Nil
  then show ?case by simp
next
  case (Cons y ys)
  show ?case
  proof (cases "P y")
    case True
    with Cons.prems have "y = x" by simp
    with True Cons.prems show ?thesis by simp
  next
    case False
    with Cons show ?thesis by simp
  qed
qed

text \<open>C3 as stated fails, in two ways. \<^verbatim>\<open>belkin_rt3200_1\<close> is listed by one pair only, under
  \<^verbatim>\<open>linksys_e8450\<close>, but is a device name too, and the direct phase gives it a path of its own.
  \<^verbatim>\<open>spare_1\<close> is listed by one pair only, under \<^verbatim>\<open>spare\<close>, which is no device: \<^verbatim>\<open>spare_1\<close> ends
  with the diagnostic while \<^verbatim>\<open>spare\<close>, an alias of \<^verbatim>\<open>tplink\<close>, gets a path.\<close>

theorem alias_counterexample:
  "topology_ok shadowed_doc \<and>
   filter (\<lambda>item. lists_alias ''belkin_rt3200_1'' (snd item)) (alias_pairs shadowed_doc)
     = [(KStr ''linksys_e8450'', YList [YStr ''belkin_rt3200_1''])] \<and>
   resolve_target_file ''belkin_rt3200_1'' shadowed_doc = ([], Inr ''targets/belkin_rt3200_1.yaml'') \<and>
   resolve_target_file ''linksys_e8450'' shadowed_doc = ([], Inr ''targets/linksys_e8450.yaml'') \<and>
   filter (\<lambda>item. lists_alias ''spare_1'' (snd item)) (alias_pairs shadowed_doc)
     = [(KStr ''spare'', YList [YStr ''spare_1''])] \<and>
   resolve_target_file ''spare_1'' shadowed_doc
     = ([Stderr ''Error: Device or instance 'spare_1' not found in labnet.yaml''], Inl (SysExit 1)) \<and>
   resolve_target_file ''spare'' shadowed_doc = ([], Inr ''targets/tplink.yaml'')"
  by (simp add: shadowed_doc_def view_defs resolve_defs not_found_message_def)

text \<open>C3, amended: on a well-shaped document, an alias \<open>a\<close> that is not itself a key of
  \<^verbatim>\<open>devices\<close> and that exactly one (lab, base device) pair lists, under a device \<open>b\<close> that is a
  key of \<^verbatim>\<open>devices\<close>, resolves as \<open>b\<close> does: the two calls end alike.\<close>

theorem alias_resolves_like_base:
  assumes "topology_ok labnet"
      and "\<not> known_device (KStr a) labnet"
      and "known_device (KStr b) labnet"
      and "filter (\<lambda>item. lists_alias a (snd item)) (alias_pairs labnet) = [(KStr b, instances)]"
  shows "resolve_target_file a labnet = resolve_target_file b labnet"
proof -
  have "first_match a labnet = Some (KStr b, instances)"
    unfolding first_match_def
    by (rule find_single [OF assms(4)]) (simp add: assms(3))
  moreover obtain r where "device_path labnet (KStr b) = Some r"
    using device_path_known [OF assms(1,3)] by blast
  ultimately have "resolved_path a labnet = Some r" and "resolved_path b labnet = Some r"
    using assms(2,3) by (simp_all add: resolved_path_def matched_device_def)
  then show ?thesis
    by (simp add: resolve_ok [OF assms(1)])
qed

text \<open>The scenario: \<^verbatim>\<open>belkin_rt3200_1\<close> resolves to \<^verbatim>\<open>targets/linksys_e8450.yaml\<close>.\<close>

theorem alias_resolves_like_base_witness:
  "topology_ok scenario_doc \<and>
   \<not> known_device (KStr ''belkin_rt3200_1'') scenario_doc \<and>
   known_device (KStr ''linksys_e8450'') scenario_doc \<and>
   filter (\<lambda>item. lists_alias ''belkin_rt3200_1'' (snd item)) (alias_pairs scenario_doc)
     = [(KStr ''linksys_e8450'', YList [YStr ''belkin_rt3200_1''])] \<and>
   resolve_target_file ''linksys_e8450'' scenario_doc = ([], Inr ''targets/linksys_e8450.yaml'') \<and>
   resolve_target_file ''belkin_rt3200_1'' scenario_doc = ([], Inr ''targets/linksys_e8450.yaml'')"
proof -
  have h1: "topology_ok scenario_doc"
    by (simp add: scenario_doc_def view_defs)
  have h2: "\<not> known_device (KStr ''belkin_rt3200_1'') scenario_doc"
    by (simp add: scenario_doc_def view_defs)
  have h3: "known_device (KStr ''linksys_e8450'') scenario_doc"
    by (simp add: scenario_doc_def view_defs)
  have h4: "filter (\<lambda>item. lists_alias ''belkin_rt3200_1'' (snd item)) (alias_pairs scenario_doc)
     = [(KStr ''linksys_e8450'', YList [YStr ''belkin_rt3200_1''])]"
    by (simp add: scenario_doc_def view_defs)
  have base: "resolve_target_file ''linksys_e8450'' scenario_doc
      = ([], Inr ''targets/linksys_e8450.yaml'')"
    by (simp add: scenario_doc_def resolve_defs)
  from alias_resolves_like_base [OF h1 h2 h3 h4] base h1 h2 h3 h4 show ?thesis
    by simp
qed

text \<open>C4: on a well-shaped document, an identifier that is neither a key of \<^verbatim>\<open>devices\<close> nor in
  any alias list makes the call print the diagnostic, which contains the identifier, and
  exit with status 1; no path is returned.\<close>

theorem unknown_identifier_not_found:
  assumes "topology_ok labnet"
      and "\<not> known_device (KStr d) labnet"
      and "\<forall>item \<in> set (alias_pairs labnet). \<not> lists_alias d (snd item)"
  shows "resolve_target_file d labnet = ([Stderr (not_found_message d)], Inl (SysExit 1)) \<and>
         sublist d (not_found_message d)"
proof -
  have "first_match d labnet = None"
    using assms(3) by (auto simp: first_match_def find_None_iff)
  with assms(2) have "resolved_path d labnet = None"
    by (simp add: resolved_path_def matched_device_def)
  moreover have "not_found_message d =
      (''Error: Device or instance '' @ [CHR 0x27]) @ d @ ([CHR 0x27] @ '' not found in labnet.yaml'')"
    by (simp add: not_found_message_def)
  then have "sublist d (not_found_message d)"
    by (simp only: sublist_appendI)
  ultimately show ?thesis
    by (simp add: resolve_ok [OF assms(1)])
qed

text \<open>The scenario: \<^verbatim>\<open>nope\<close> is absent everywhere.\<close>

theorem unknown_identifier_not_found_witness:
  "topology_ok scenario_doc \<and>
   \<not> known_device (KStr ''nope'') scenario_doc \<and>
   alias_pairs scenario_doc = [(KStr ''linksys_e8450'', YList [YStr ''belkin_rt3200_1''])] \<and>
   \<not> lists_alias ''nope'' (YList [YStr ''belkin_rt3200_1'']) \<and>
   resolve_target_file ''nope'' scenario_doc
     = ([Stderr ''Error: Device or instance 'nope' not found in labnet.yaml''], Inl (SysExit 1))"
proof -
  have h1: "topology_ok scenario_doc"
    by (simp add: scenario_doc_def view_defs)
  have h2: "\<not> known_device (KStr ''nope'') scenario_doc"
    by (simp add: scenario_doc_def view_defs)
  have pairs: "alias_pairs scenario_doc = [(KStr ''linksys_e8450'', YList [YStr ''belkin_rt3200_1''])]"
    by (simp add: scenario_doc_def view_defs)
  have no: "\<not> lists_alias ''nope'' (YList [YStr ''belkin_rt3200_1''])"
    by (simp add: lists_alias_def)
  have h3: "\<forall>item \<in> set (alias_pairs scenario_doc). \<not> lists_alias ''nope'' (snd item)"
    by (simp add: pairs no)
  from unknown_identifier_not_found [OF h1 h2 h3] h1 h2 pairs no show ?thesis
    by (simp add: not_found_message_def)
qed

text \<open>C5 as stated fails: \<^verbatim>\<open>unit_1\<close> is listed under \<^verbatim>\<open>ghost\<close>, which \<^verbatim>\<open>devices\<close> lacks, and the call
  still returns a path, because the loop goes on to the pair of the second lab.\<close>

theorem dangling_alias_counterexample:
  "topology_ok two_labs_doc \<and>
   \<not> known_device (KStr ''unit_1'') two_labs_doc \<and>
   (KStr ''ghost'', YList [YStr ''unit_1'']) \<in> set (alias_pairs two_labs_doc) \<and>
   lists_alias ''unit_1'' (YList [YStr ''unit_1'']) \<and>
   \<not> known_device (KStr ''ghost'') two_labs_doc \<and>
   resolve_target_file ''unit_1'' two_labs_doc = ([], Inr ''targets/real.yaml'')"
  by (simp add: two_labs_doc_def view_defs resolve_defs)

text \<open>C5, amended: on a well-shaped document, when the identifier is not a device name, some
  pair lists it, and every pair that lists it names a base device that \<^verbatim>\<open>devices\<close> lacks, the
  call prints the diagnostic and exits with status 1; the name of the base device is never
  used as a stem.\<close>

theorem dangling_alias_not_found:
  assumes "topology_ok labnet"
      and "\<not> known_device (KStr d) labnet"
      and "(b, instances) \<in> set (alias_pairs labnet)"
      and "lists_alias d instances"
      and "\<forall>item \<in> set (alias_pairs labnet).
             lists_alias d (snd item) \<longrightarrow> \<not> known_device (fst item) labnet"
  shows "resolve_target_file d labnet = ([Stderr (not_found_message d)], Inl (SysExit 1))"
proof -
  have "first_match d labnet = None"
    using assms(5) by (auto simp: first_match_def find_None_iff)
  with assms(2) have "resolved_path d labnet = None"
    by (simp add: resolved_path_def matched_device_def)
  then show ?thesis
    by (simp add: resolve_ok [OF assms(1)])
qed

text \<open>One lab, one dangling pair.\<close>

theorem dangling_alias_not_found_witness:
  "topology_ok dangling_doc \<and>
   \<not> known_device (KStr ''unit_1'') dangling_doc \<and>
   alias_pairs dangling_doc = [(KStr ''ghost'', YList [YStr ''unit_1''])] \<and>
   lists_alias ''unit_1'' (YList [YStr ''unit_1'']) \<and>
   \<not> known_device (KStr ''ghost'') dangling_doc \<and>
   resolve_target_file ''unit_1'' dangling_doc
     = ([Stderr ''Error: Device or instance 'unit_1' not found in labnet.yaml''], Inl (SysExit 1))"
proof -
  have h1: "topology_ok dangling_doc"
    by (simp add: dangling_doc_def view_defs)
  have h2: "\<not> known_device (KStr ''unit_1'') dangling_doc"
    by (simp add: dangling_doc_def view_defs)
  have pairs: "alias_pairs dangling_doc = [(KStr ''ghost'', YList [YStr ''unit_1''])]"
    by (simp add: dangling_doc_def view_defs)
  have h3: "(KStr ''ghost'', YList [YStr ''unit_1'']) \<in> set (alias_pairs dangling_doc)"
    by (simp add: pairs)
  have h4: "lists_alias ''unit_1'' (YList [YStr ''unit_1''])"
    by (simp add: lists_alias_def)
  have ghost: "\<not> known_device (KStr ''ghost'') dangling_doc"
    by (simp add: dangling_doc_def view_defs)
  have h5: "\<forall>item \<in> set (alias_pairs dangling_doc).
      lists_alias ''unit_1'' (snd item) \<longrightarrow> \<not> known_device (fst item) dangling_doc"
    by (simp add: pairs ghost)
  from dangling_alias_not_found [OF h1 h2 h3 h4 h5] h1 h2 pairs h4 ghost show ?thesis
    by (simp add: not_found_message_def)
qed

text \<open>C6 as stated fails, in two ways. The first pair that lists \<^verbatim>\<open>unit_1\<close> is the one of
  \<^verbatim>\<open>ghost\<close>, and the path returned is derived from the second pair. The first pair that lists
  \<^verbatim>\<open>unit_2\<close> is the one of \<^verbatim>\<open>real\<close>, and the path returned is the one of \<^verbatim>\<open>unit_2\<close> itself, a
  device name.\<close>

theorem first_match_counterexample:
  "alias_pairs ambiguous_doc =
     [(KStr ''ghost'', YList [YStr ''unit_1'']),
      (KStr ''real'', YList [YStr ''unit_1'', YStr ''unit_2'']),
      (KStr ''other'', YList [YStr ''unit_1'', YStr ''unit_2''])] \<and>
   \<not> known_device (KStr ''unit_1'') ambiguous_doc \<and>
   \<not> known_device (KStr ''ghost'') ambiguous_doc \<and>
   resolve_target_file ''unit_1'' ambiguous_doc = ([], Inr ''targets/real.yaml'') \<and>
   known_device (KStr ''unit_2'') ambiguous_doc \<and>
   resolve_target_file ''real'' ambiguous_doc = ([], Inr ''targets/real.yaml'') \<and>
   resolve_target_file ''unit_2'' ambiguous_doc = ([], Inr ''targets/unit_2.yaml'')"
  by (simp add: ambiguous_doc_def view_defs resolve_defs)

lemma find_first:
  assumes "\<forall>x \<in> set before. \<not> P x" and "P y"
  shows "find P (before @ y # rest) = Some y"
  using assms by (induction before) auto

text \<open>C6, amended: on a well-shaped document, for an alias that is not itself a key of
  \<^verbatim>\<open>devices\<close>, the first pair in iteration order that lists it and whose base device is a key
  of \<^verbatim>\<open>devices\<close> decides the call, however many later pairs list the alias too: the call
  prints nothing and ends as the f-string on the target name of that base device ends: with
  the path when the target name can be formatted, with the exception of the f-string
  otherwise, which is \<^verbatim>\<open>ValueError\<close> for an integer of more than 4300 digits.\<close>

theorem first_known_match_wins:
  assumes "topology_ok labnet"
      and "\<not> known_device (KStr a) labnet"
      and "alias_pairs labnet = before @ (b, instances) # rest"
      and "lists_alias a instances"
      and "known_device b labnet"
      and "\<forall>item \<in> set before. \<not> (lists_alias a (snd item) \<and> known_device (fst item) labnet)"
  shows "\<exists>spec. dict_lookup b (devices_of labnet) = Some (YMap spec) \<and>
           resolve_target_file a labnet = call_result (target_file_of (device_stem b spec)) \<and>
           (\<forall>stem. py_str (device_stem b spec) = Inr stem \<longrightarrow>
              resolve_target_file a labnet = ([], Inr (''targets/'' @ stem @ ''.yaml''))) \<and>
           (\<forall>e. py_str (device_stem b spec) = Inl e \<longrightarrow>
              resolve_target_file a labnet = ([], Inl (Raised e))) \<and>
           (\<forall>i. device_stem b spec = YInt i \<and> int_max_str_digits < length (decimal (nat \<bar>i\<bar>)) \<longrightarrow>
              resolve_target_file a labnet = ([], Inl (Raised ValueError)))"
proof -
  obtain r where r: "device_path labnet b = Some r"
    using device_path_known [OF assms(1,5)] by blast
  then obtain spec where spec: "dict_lookup b (devices_of labnet) = Some (YMap spec)"
    and r_def: "r = target_file_of (device_stem b spec)"
    by (auto simp: device_path_def split: option.splits yaml.splits)
  have "first_match a labnet = Some (b, instances)"
    unfolding first_match_def assms(3)
    by (rule find_first) (use assms(4-6) in auto)
  with assms(2) r have "resolved_path a labnet = Some r"
    by (simp add: resolved_path_def matched_device_def)
  then have run: "resolve_target_file a labnet = call_result (target_file_of (device_stem b spec))"
    by (simp add: resolve_ok [OF assms(1)] r_def)
  have path: "resolve_target_file a labnet = ([], Inr (''targets/'' @ stem @ ''.yaml''))"
    if "py_str (device_stem b spec) = Inr stem" for stem
    using that by (simp add: run call_result_def target_file_of_def and_then_def)
  have raised: "resolve_target_file a labnet = ([], Inl (Raised e))"
    if "py_str (device_stem b spec) = Inl e" for e
    using that by (simp add: run call_result_def target_file_of_def and_then_def)
  have "resolve_target_file a labnet = ([], Inl (Raised ValueError))"
    if "device_stem b spec = YInt i \<and> int_max_str_digits < length (decimal (nat \<bar>i\<bar>))" for i
    using that by (intro raised) (simp add: int_text_def)
  with spec run path raised show ?thesis by blast
qed

text \<open>Three pairs list \<^verbatim>\<open>unit_1\<close>; the second is the first whose base device exists.\<close>

theorem first_known_match_wins_witness:
  "topology_ok ambiguous_doc \<and>
   \<not> known_device (KStr ''unit_1'') ambiguous_doc \<and>
   alias_pairs ambiguous_doc =
     [(KStr ''ghost'', YList [YStr ''unit_1''])]
     @ (KStr ''real'', YList [YStr ''unit_1'', YStr ''unit_2''])
     # [(KStr ''other'', YList [YStr ''unit_1'', YStr ''unit_2''])] \<and>
   lists_alias ''unit_1'' (YList [YStr ''unit_1'', YStr ''unit_2'']) \<and>
   known_device (KStr ''real'') ambiguous_doc \<and>
   \<not> known_device (KStr ''ghost'') ambiguous_doc \<and>
   dict_lookup (KStr ''real'') (devices_of ambiguous_doc) = Some (YMap []) \<and>
   resolve_target_file ''unit_1'' ambiguous_doc = ([], Inr ''targets/real.yaml'')"
proof -
  have h1: "topology_ok ambiguous_doc"
    by (simp add: ambiguous_doc_def view_defs)
  have h2: "\<not> known_device (KStr ''unit_1'') ambiguous_doc"
    by (simp add: ambiguous_doc_def view_defs)
  have h3: "alias_pairs ambiguous_doc =
     [(KStr ''ghost'', YList [YStr ''unit_1''])]
     @ (KStr ''real'', YList [YStr ''unit_1'', YStr ''unit_2''])
     # [(KStr ''other'', YList [YStr ''unit_1'', YStr ''unit_2''])]"
    by (simp add: ambiguous_doc_def view_defs)
  have h4: "lists_alias ''unit_1'' (YList [YStr ''unit_1'', YStr ''unit_2''])"
    by (simp add: lists_alias_def)
  have h5: "known_device (KStr ''real'') ambiguous_doc"
    by (simp add: ambiguous_doc_def view_defs)
  have ghost: "\<not> known_device (KStr ''ghost'') ambiguous_doc"
    by (simp add: ambiguous_doc_def view_defs)
  have h6: "\<forall>item \<in> set [(KStr ''ghost'', YList [YStr ''unit_1''])].
      \<not> (lists_alias ''unit_1'' (snd item) \<and> known_device (fst item) ambiguous_doc)"
    by (simp add: ghost)
  have real: "dict_lookup (KStr ''real'') (devices_of ambiguous_doc) = Some (YMap [])"
    by (simp add: ambiguous_doc_def devices_of_def key_eq_def)
  from first_known_match_wins [OF h1 h2 h3 h4 h5 h6] real
  have "resolve_target_file ''unit_1'' ambiguous_doc
      = call_result (target_file_of (device_stem (KStr ''real'') []))"
    by auto
  then have "resolve_target_file ''unit_1'' ambiguous_doc = ([], Inr ''targets/real.yaml'')"
    by (simp add: call_result_def target_file_of_def device_stem_def and_then_def)
  with h1 h2 h3 h4 h5 ghost real show ?thesis
    by simp
qed

subsection \<open>The stem of a returned path\<close>

lemma decimal_not_empty: "decimal n \<noteq> []"
  by (subst decimal.simps) simp

lemma py_str_empty: "py_str v = Inr [] \<longleftrightarrow> v = YStr []"
  by (cases v)
     (auto simp: int_text_def int_str_def decimal_not_empty repr_str_def and_then_def
       split: sum.splits if_splits)

lemma device_stem_empty:
  "device_stem b spec = YStr [] \<longleftrightarrow>
     dict_lookup (KStr ''target_file'') spec = Some (YStr []) \<or>
     dict_lookup (KStr ''target_file'') spec = None \<and> b = KStr []"
  by (cases b) (auto simp: device_stem_def split: option.splits)

text \<open>C8 as stated fails: with \<^verbatim>\<open>target_file: ""\<close> the call succeeds and the stem is empty.\<close>

theorem empty_stem_counterexample:
  "topology_ok empty_stem_doc \<and>
   resolve_target_file ''foo'' empty_stem_doc = ([], Inr ''targets/.yaml'')"
  by (simp add: empty_stem_doc_def view_defs resolve_defs)

lemma device_path_Inr:
  assumes "device_path labnet b = Some (Inr path)"
  shows "\<exists>spec stem. dict_lookup b (devices_of labnet) = Some (YMap spec) \<and>
     py_str (device_stem b spec) = Inr stem \<and> path = ''targets/'' @ stem @ ''.yaml''"
  using assms
  by (auto simp: device_path_def target_file_of_def and_then_def
      split: option.splits yaml.splits sum.splits)

text \<open>C8, amended: on a well-shaped document, every path returned is
  \<^verbatim>\<open>targets/<stem>.yaml\<close> for the device the identifier is matched to (itself when it is a key
  of \<^verbatim>\<open>devices\<close>, otherwise the base device of the first pair that lists it under a key of
  \<^verbatim>\<open>devices\<close>), and that device has a configuration in \<^verbatim>\<open>devices\<close>. The stem is the text of its
  \<^verbatim>\<open>target_file\<close> value when the entry is present (a string as it is, \<^verbatim>\<open>None\<close> for a null) and
  the name of the device otherwise. The stem is empty exactly when the \<^verbatim>\<open>target_file\<close> entry
  is the empty string, or is absent while the device name is the empty string. No event is
  printed.\<close>

theorem resolved_stem:
  assumes "topology_ok labnet"
      and "resolve_target_file d labnet = (events, Inr path)"
  shows "\<exists>b spec stem.
           matched_device d labnet = Some b \<and>
           dict_lookup b (devices_of labnet) = Some (YMap spec) \<and>
           py_str (device_stem b spec) = Inr stem \<and>
           path = ''targets/'' @ stem @ ''.yaml'' \<and>
           events = [] \<and>
           (\<forall>t. device_stem b spec = YStr t \<longrightarrow> stem = t) \<and>
           (device_stem b spec = YNull \<longrightarrow> stem = ''None'') \<and>
           (stem = [] \<longleftrightarrow>
              dict_lookup (KStr ''target_file'') spec = Some (YStr []) \<or>
              dict_lookup (KStr ''target_file'') spec = None \<and> b = KStr [])"
proof -
  from assms(2) have "resolved_path d labnet = Some (Inr path)" and events: "events = []"
    by (auto simp: resolve_ok [OF assms(1)] call_result_def split: option.splits sum.splits)
  then obtain b where b: "matched_device d labnet = Some b"
    and "device_path labnet b = Some (Inr path)"
    by (auto simp: resolved_path_def split: option.splits)
  from device_path_Inr [OF this(2)] obtain spec stem where
    spec: "dict_lookup b (devices_of labnet) = Some (YMap spec)"
    and stem: "py_str (device_stem b spec) = Inr stem"
    and path: "path = ''targets/'' @ stem @ ''.yaml''"
    by blast
  have "stem = [] \<longleftrightarrow> device_stem b spec = YStr []"
    using stem py_str_empty [of "device_stem b spec"] by auto
  then have empty: "stem = [] \<longleftrightarrow>
      dict_lookup (KStr ''target_file'') spec = Some (YStr []) \<or>
      dict_lookup (KStr ''target_file'') spec = None \<and> b = KStr []"
    by (simp add: device_stem_empty)
  have str: "stem = t" if "device_stem b spec = YStr t" for t
    using stem that by simp
  have null: "stem = ''None''" if "device_stem b spec = YNull"
    using stem that by simp
  from b spec stem path events empty str null show ?thesis
    by blast
qed

text \<open>A null \<^verbatim>\<open>target_file\<close> gives the stem \<^verbatim>\<open>None\<close>.\<close>

theorem resolved_stem_witness:
  "topology_ok null_stem_doc \<and>
   resolve_target_file ''foo'' null_stem_doc = ([], Inr ''targets/None.yaml'') \<and>
   matched_device ''foo'' null_stem_doc = Some (KStr ''foo'') \<and>
   dict_lookup (KStr ''foo'') (devices_of null_stem_doc) = Some (YMap [(KStr ''target_file'', YNull)]) \<and>
   device_stem (KStr ''foo'') [(KStr ''target_file'', YNull)] = YNull \<and>
   (\<exists>stem. py_str YNull = Inr stem \<and> ''targets/None.yaml'' = ''targets/'' @ stem @ ''.yaml'' \<and>
      stem = ''None'' \<and> stem \<noteq> [])"
proof -
  have h1: "topology_ok null_stem_doc"
    by (simp add: null_stem_doc_def view_defs)
  have h2: "resolve_target_file ''foo'' null_stem_doc = ([], Inr ''targets/None.yaml'')"
    by (simp add: null_stem_doc_def resolve_defs)
  have matched: "matched_device ''foo'' null_stem_doc = Some (KStr ''foo'')"
    by (simp add: null_stem_doc_def matched_device_def view_defs)
  have looked: "dict_lookup (KStr ''foo'') (devices_of null_stem_doc)
      = Some (YMap [(KStr ''target_file'', YNull)])"
    by (simp add: null_stem_doc_def view_defs)
  have name: "device_stem (KStr ''foo'') [(KStr ''target_file'', YNull)] = YNull"
    by (simp add: device_stem_def key_eq_def)
  from resolved_stem [OF h1 h2] obtain b spec stem where
    "matched_device ''foo'' null_stem_doc = Some b"
    "dict_lookup b (devices_of null_stem_doc) = Some (YMap spec)"
    "py_str (device_stem b spec) = Inr stem"
    "''targets/None.yaml'' = ''targets/'' @ stem @ ''.yaml''"
    "device_stem b spec = YNull \<longrightarrow> stem = ''None''"
    by blast
  with matched looked name have "py_str YNull = Inr stem \<and>
      ''targets/None.yaml'' = ''targets/'' @ stem @ ''.yaml'' \<and> stem = ''None'' \<and> stem \<noteq> []"
    by auto
  with h1 h2 matched looked name show ?thesis
    by blast
qed

section \<open>The generator\<close>

subsection \<open>The unknown lab\<close>

lemma key_eq_KStr: "key_eq (KStr s) k \<longleftrightarrow> k = KStr s"
  by (simp add: key_eq_def eq_commute)

lemma lookup_str_names:
  assumes "map fst kvs = map KStr names"
  shows "dict_lookup (KStr s) kvs \<noteq> None \<longleftrightarrow> s \<in> set names"
  using assms
proof (induction kvs arbitrary: names)
  case Nil
  then show ?case by simp
next
  case (Cons kv kvs)
  then obtain n ns where names: "names = n # ns" by (cases names) auto
  obtain k v where kv: "kv = (k, v)" by (cases kv)
  from Cons.prems names kv have k: "k = KStr n" and rest: "map fst kvs = map KStr ns"
    by simp_all
  from Cons.IH [OF rest] show ?case
    by (auto simp: names kv k key_eq_KStr)
qed

lemma str_items_names: "str_items (map KStr names) = Inr names"
  by (induction names) (simp_all add: and_then_def)

lemma sublist_join:
  assumes "name \<in> set names"
  shows "sublist name (join sep names)"
  using assms
proof (induction sep names rule: join.induct)
  case (1 sep)
  then show ?case by simp
next
  case (2 sep x)
  then show ?case by simp
next
  case (3 sep x y ys)
  show ?case
  proof (cases "name = x")
    case True
    then show ?thesis by simp
  next
    case False
    with 3 have "sublist name (join sep (y # ys))" by simp
    then show ?thesis by (simp add: sublist_append)
  qed
qed

text \<open>C7: when \<^verbatim>\<open>labnet.get('labs', {})\<close> is a mapping whose keys are the strings \<open>names\<close> and
  \<open>lab_name\<close> is not among them, the call prints two lines to the error stream,
  the second of which contains every lab name, and exits with status 1: the engine is not
  called, no directory is made, no file is written and nothing goes to standard output.\<close>

theorem unknown_lab_lists_all_labs:
  assumes "path_exists env labnet_path"
      and "load_yaml env labnet_path = Inr labnet"
      and "py_get labnet (KStr ''labs'') (YMap []) = Inr (YMap labs)"
      and "map fst labs = map KStr names"
      and "lab_name \<notin> set names"
  shows "generate_places_yaml env lab_name labnet_path template_path output_path =
           ([Stderr (lab_not_found_message lab_name),
             Stderr (''Available labs: '' @ join '', '' names)], Inl (SysExit 1)) \<and>
         (\<forall>name \<in> set names. sublist name (''Available labs: '' @ join '', '' names))"
proof -
  have "dict_lookup (KStr lab_name) labs = None"
    using lookup_str_names [OF assms(4), of lab_name] assms(5) by simp
  then have known: "and_then (py_get labnet (KStr ''labs'') (YMap [])) (py_in (KStr lab_name))
      = Inr False"
    by (simp add: and_then_def assms(3))
  have "available_labs labnet = Inr (''Available labs: '' @ join '', '' names)"
    by (simp add: available_labs_def and_then_def assms(3,4) str_items_names)
  then have "unknown_lab lab_name labnet =
      ([Stderr (lab_not_found_message lab_name),
        Stderr (''Available labs: '' @ join '', '' names)], Inl (SysExit 1))"
    by (simp add: unknown_lab_def)
  with known have run: "generate_places_yaml env lab_name labnet_path template_path output_path =
      ([Stderr (lab_not_found_message lab_name),
        Stderr (''Available labs: '' @ join '', '' names)], Inl (SysExit 1))"
    by (simp add: generate_places_yaml_def assms(1,2))
  have "sublist name (''Available labs: '' @ join '', '' names)" if "name \<in> set names" for name
    using sublist_join [OF that, of "'', ''"] by (simp only: sublist_append simp_thms)
  with run show ?thesis by blast
qed

text \<open>Two labs, and a third name asked for.\<close>

theorem unknown_lab_lists_all_labs_witness:
  "generate_places_yaml demo_env ''lab_c'' ''labnet.yaml'' ''places.yaml.j2'' ''out/places.yaml'' =
     ([Stderr ''Error: Lab 'lab_c' not found in labnet.yaml'',
       Stderr ''Available labs: lab_a, lab_b''], Inl (SysExit 1)) \<and>
   sublist ''lab_a'' ''Available labs: lab_a, lab_b'' \<and>
   sublist ''lab_b'' ''Available labs: lab_a, lab_b''"
proof -
  have h1: "path_exists demo_env ''labnet.yaml''"
    by (simp add: demo_env_def)
  have h2: "load_yaml demo_env ''labnet.yaml'' = Inr two_labs_doc"
    by (simp add: demo_env_def)
  have h3: "py_get two_labs_doc (KStr ''labs'') (YMap []) = Inr (YMap
         [(KStr ''lab_a'', YMap [(KStr ''device_instances'',
             YMap [(KStr ''ghost'', YList [YStr ''unit_1''])])]),
          (KStr ''lab_b'', YMap [(KStr ''device_instances'',
             YMap [(KStr ''real'', YList [YStr ''unit_1''])])])])"
    by (simp add: two_labs_doc_def key_eq_def)
  have h4: "map fst
         [(KStr ''lab_a'', YMap [(KStr ''device_instances'',
             YMap [(KStr ''ghost'', YList [YStr ''unit_1''])])]),
          (KStr ''lab_b'', YMap [(KStr ''device_instances'',
             YMap [(KStr ''real'', YList [YStr ''unit_1''])])])]
     = map KStr [''lab_a'', ''lab_b'']"
    by simp
  have h5: "''lab_c'' \<notin> set [''lab_a'', ''lab_b'']"
    by simp
  from unknown_lab_lists_all_labs [OF h1 h2 h3 h4 h5, of "''places.yaml.j2''" "''out/places.yaml''"]
  show ?thesis
    by (simp add: lab_not_found_message_def)
qed

subsection \<open>The rendering context and the written text\<close>

lemma known_lab:
  assumes "dict_lookup (KStr lab_name) (labs_of labnet) = Some lab_config"
  shows "and_then (py_get labnet (KStr ''labs'') (YMap [])) (py_in (KStr lab_name)) = Inr True"
  using assms
  by (auto simp: labs_of_def and_then_def split: yaml.splits option.splits)

text \<open>C9: on a known lab, with the document and the template read, the engine is called
  with the template text and a context that binds \<^verbatim>\<open>labnet\<close> to the whole loaded document,
  \<^verbatim>\<open>inventory_hostname\<close> to the lab name and \<^verbatim>\<open>ansible_date_time\<close> to a mapping whose \<^verbatim>\<open>epoch\<close> is
  the integer the clock gave; when the engine returns a text and the directory and the file
  can be made, that text, unchanged, is what is written to the output path.\<close>

theorem render_context_fields:
  assumes "path_exists env labnet_path"
      and "load_yaml env labnet_path = Inr labnet"
      and "dict_lookup (KStr lab_name) (labs_of labnet) = Some lab_config"
      and "path_exists env template_path"
      and "read_text env template_path = Inr template_str"
  shows "(\<exists>rest. fst (generate_places_yaml env lab_name labnet_path template_path output_path)
            = RenderCall template_str (render_context labnet lab_name (epoch_now env)) # rest) \<and>
         map_of (render_context labnet lab_name (epoch_now env)) ''labnet'' = Some labnet \<and>
         map_of (render_context labnet lab_name (epoch_now env)) ''inventory_hostname''
           = Some (YStr lab_name) \<and>
         map_of (render_context labnet lab_name (epoch_now env)) ''ansible_date_time''
           = Some (YMap [(KStr ''epoch'', YInt (epoch_now env))]) \<and>
         (\<forall>places_yaml.
            render env template_str (render_context labnet lab_name (epoch_now env)) = Inr places_yaml \<and>
            mkdir_parents env (path_parent env output_path) = None \<and>
            write_text env output_path places_yaml = None \<longrightarrow>
            generate_places_yaml env lab_name labnet_path template_path output_path =
              ([RenderCall template_str (render_context labnet lab_name (epoch_now env)),
                MkdirParents (path_parent env output_path),
                WriteFile output_path places_yaml]
               @ report output_path lab_name places_yaml, Inr ()))"
proof -
  let ?ctx = "render_context labnet lab_name (epoch_now env)"
  have run: "generate_places_yaml env lab_name labnet_path template_path output_path =
      render_places env lab_name labnet template_path output_path"
    by (simp add: generate_places_yaml_def assms(1,2) known_lab [OF assms(3)])
  have call: "\<exists>rest. fst (render_places env lab_name labnet template_path output_path)
      = RenderCall template_str ?ctx # rest"
    by (simp add: render_places_def assms(4,5) Let_def split: sum.splits option.splits)
  have ok: "render_places env lab_name labnet template_path output_path =
        ([RenderCall template_str ?ctx, MkdirParents (path_parent env output_path),
          WriteFile output_path places_yaml] @ report output_path lab_name places_yaml, Inr ())"
    if "render env template_str ?ctx = Inr places_yaml"
      and "mkdir_parents env (path_parent env output_path) = None"
      and "write_text env output_path places_yaml = None" for places_yaml
    using that by (simp add: render_places_def assms(4,5) Let_def)
  have fields: "map_of ?ctx ''labnet'' = Some labnet"
    "map_of ?ctx ''inventory_hostname'' = Some (YStr lab_name)"
    "map_of ?ctx ''ansible_date_time'' = Some (YMap [(KStr ''epoch'', YInt (epoch_now env))])"
    by (simp_all add: render_context_def)
  from call ok show ?thesis
    unfolding run using fields by blast
qed

text \<open>A run of the example environment on its second lab.\<close>

theorem render_context_fields_witness:
  "generate_places_yaml demo_env ''lab_b'' ''labnet.yaml'' ''places.yaml.j2'' ''out/places.yaml'' =
     ([RenderCall ''{{ inventory_hostname }}-unit_1:''
         [(''labnet'', two_labs_doc),
          (''inventory_hostname'', YStr ''lab_b''),
          (''ansible_date_time'', YMap [(KStr ''epoch'', YInt 1700000000)])],
       MkdirParents ''out'',
       WriteFile ''out/places.yaml'' (''labgrid-lab_b-unit_1:'' @ [CHR 0x0A])]
      @ report ''out/places.yaml'' ''lab_b'' (''labgrid-lab_b-unit_1:'' @ [CHR 0x0A]), Inr ())"
proof -
  have h1: "path_exists demo_env ''labnet.yaml''"
    by (simp add: demo_env_def)
  have h2: "load_yaml demo_env ''labnet.yaml'' = Inr two_labs_doc"
    by (simp add: demo_env_def)
  have h3: "dict_lookup (KStr ''lab_b'') (labs_of two_labs_doc)
      = Some (YMap [(KStr ''device_instances'', YMap [(KStr ''real'', YList [YStr ''unit_1''])])])"
    by (simp add: two_labs_doc_def labs_of_def key_eq_def)
  have h4: "path_exists demo_env ''places.yaml.j2''"
    by (simp add: demo_env_def)
  have h5: "read_text demo_env ''places.yaml.j2'' = Inr ''{{ inventory_hostname }}-unit_1:''"
    by (simp add: demo_env_def)
  have ctx: "render_context two_labs_doc ''lab_b'' (epoch_now demo_env) =
      [(''labnet'', two_labs_doc),
       (''inventory_hostname'', YStr ''lab_b''),
       (''ansible_date_time'', YMap [(KStr ''epoch'', YInt 1700000000)])]"
    by (simp add: render_context_def demo_env_def)
  have rendered: "render demo_env ''{{ inventory_hostname }}-unit_1:''
      (render_context two_labs_doc ''lab_b'' (epoch_now demo_env))
      = Inr (''labgrid-lab_b-unit_1:'' @ [CHR 0x0A])"
    by (simp add: render_context_def demo_env_def demo_render_def)
  have made: "mkdir_parents demo_env (path_parent demo_env ''out/places.yaml'') = None"
    by (simp add: demo_env_def)
  have written: "write_text demo_env ''out/places.yaml'' (''labgrid-lab_b-unit_1:'' @ [CHR 0x0A]) = None"
    by (simp add: demo_env_def)
  have parent: "path_parent demo_env ''out/places.yaml'' = ''out''"
    by (simp add: demo_env_def)
  from render_context_fields [OF h1 h2 h3 h4 h5, of "''out/places.yaml''"] rendered made written
  have "generate_places_yaml demo_env ''lab_b'' ''labnet.yaml'' ''places.yaml.j2'' ''out/places.yaml'' =
      ([RenderCall ''{{ inventory_hostname }}-unit_1:''
          (render_context two_labs_doc ''lab_b'' (epoch_now demo_env)),
        MkdirParents (path_parent demo_env ''out/places.yaml''),
        WriteFile ''out/places.yaml'' (''labgrid-lab_b-unit_1:'' @ [CHR 0x0A])]
       @ report ''out/places.yaml'' ''lab_b'' (''labgrid-lab_b-unit_1:'' @ [CHR 0x0A]), Inr ())"
    by blast
  then show ?thesis
    by (simp only: ctx parent)
qed

subsection \<open>The report\<close>

lemma count_places_filter: "count_places ls = int (length (filter is_place_line ls))"
  by (induction ls) simp_all

lemma list_places_filter:
  "list_places ls = map (\<lambda>line. Stdout (''  - '' @ rstrip_colon (strip line))) (filter is_place_line ls)"
  by (induction ls) simp_all

text \<open>C10: for every rendered text, the number printed after \<^verbatim>\<open>Places generated:\<close> is the
  number of entries printed under \<^verbatim>\<open>Generated places:\<close>; both come from the lines of the text
  that pass the same test.\<close>

theorem place_count_matches_listing:
  "count_places (split_nl places_yaml) = int (length (list_places (split_nl places_yaml))) \<and>
   count_places (split_nl places_yaml) = int (length (filter is_place_line (split_nl places_yaml))) \<and>
   list_places (split_nl places_yaml) =
     map (\<lambda>line. Stdout (''  - '' @ rstrip_colon (strip line)))
       (filter is_place_line (split_nl places_yaml)) \<and>
   report output_path lab_name places_yaml =
     [Stdout (check_mark @ '' places.yaml generated successfully''),
      Stdout (''  Output: '' @ output_path),
      Stdout (''  Lab: '' @ lab_name),
      Stdout (''  Places generated: '' @ int_str (int (length (list_places (split_nl places_yaml))))),
      Stdout (CHR 0x0A # ''Generated places:'')]
     @ list_places (split_nl places_yaml)"
  by (simp add: count_places_filter list_places_filter report_def)

lemma demo_lines: "split_nl demo_places = 
   [''labgrid-fcefyn-belkin_rt3200_1:'', ''  acquired: null'',
    ''  labgrid-fcefyn-openwrt_one :  '', ''  matches:'', []]"
  by (simp add: demo_places_def)

lemma demo_listing: "list_places (split_nl demo_places) =
   [Stdout ''  - labgrid-fcefyn-belkin_rt3200_1'', Stdout ''  - labgrid-fcefyn-openwrt_one '']"
  unfolding demo_lines by code_simp

text \<open>Two of the five lines of the example text pass.\<close>

theorem place_count_matches_listing_witness:
  "count_places (split_nl demo_places) = 2 \<and>
   list_places (split_nl demo_places) =
     [Stdout ''  - labgrid-fcefyn-belkin_rt3200_1'', Stdout ''  - labgrid-fcefyn-openwrt_one '']"
proof -
  have "count_places (split_nl demo_places) = int (length (list_places (split_nl demo_places)))"
    using place_count_matches_listing [of demo_places] by blast
  then show ?thesis
    by (simp add: demo_listing)
qed

end
